theory Spec2Isabelle
  imports Main
begin

section \<open>Data model\<close>

text \<open>
  The tool is the Python class \<open>PolicyComplianceAnalysisTool\<close>. Its methods mutate the
  attributes of one instance, the file system and the vector database of the process,
  and they call library code (the PDF loader, the text splitter, the embedding backend,
  the vector store, the language model).

  \<^item> The instance is the record \<open>tool\<close>; every method takes it and returns the new one.
  \<^item> The file system is a map from paths to nodes, passed and returned the same way.
    Listing a path that is a regular file raises \<open>NotADirectoryError\<close>. Creating a
    folder can fail for reasons the map does not show (an empty path, a parent that is
    a regular file, permissions): \<open>makedirs_raises\<close> gives the exception, if any.
  \<^item> \<open>Chroma.from_documents\<close> is called without a collection name and without a
    directory, so every store it returns is on the default collection of the one
    in-process database. That collection is the list \<open>collection\<close>, passed and
    returned by the methods that build or read a store: a store object is a handle,
    building a store adds its chunks to the collection, and retrieval through any store
    reads the whole collection.
  \<^item> The other library calls are fields of the record \<open>env\<close>. A call that can raise
    (loading a PDF, embedding, retrieval, setting up and calling the model) returns a
    sum, \<open>Inl\<close> the exception, whether or not the source wraps it in \<open>try\<close>;
    joining paths and splitting with the default sizes are taken to return. The
    library objects (store, embedding handle, model handle, file content) are type
    parameters: the source never looks inside them.
  \<^item> An exception that leaves a method is the \<open>Inl\<close> of its result.
  \<^item> The progress lines written with \<open>print\<close> are not part of the model.
\<close>

datatype py_exception =
    ValueError string
  | NotADirectoryError string
  | FileNotFoundError string
  | KeyError string
  | LibraryError string

text \<open>
  An exception carries the text that \<open>str(e)\<close> gives, which the f-strings of the
  source print.
\<close>

fun str_of_exception :: "py_exception \<Rightarrow> string" where
  "str_of_exception (ValueError m) = m"
| "str_of_exception (NotADirectoryError m) = m"
| "str_of_exception (FileNotFoundError m) = m"
| "str_of_exception (KeyError m) = m"
| "str_of_exception (LibraryError m) = m"

text \<open>A langchain \<open>Document\<close>: the text of a page or of a chunk, and its metadata.\<close>

record document =
  page_content :: string
  metadata :: "(string \<times> string) list"

text \<open>A path names a directory (with the names \<open>os.listdir\<close> gives) or a regular file.\<close>

datatype 'c node = Dir "string list" | File 'c

type_synonym 'c filesystem = "string \<rightharpoonup> 'c node"

record ('c, 'idx, 'emb, 'llm) env =
  path_join :: "string \<Rightarrow> string \<Rightarrow> string"
  makedirs_raises :: "'c filesystem \<Rightarrow> string \<Rightarrow> py_exception option"
  PyPDFLoader_load :: "string \<Rightarrow> 'c \<Rightarrow> py_exception + document list"
  text_splitter_split_documents :: "int \<Rightarrow> int \<Rightarrow> document list \<Rightarrow> document list"
  OllamaEmbeddings :: "py_exception + 'emb"
  Chroma_embed :: "document list \<Rightarrow> 'emb \<Rightarrow> py_exception + 'idx"
  get_relevant_documents :: "'idx \<Rightarrow> document list \<Rightarrow> string \<Rightarrow> py_exception + document list"
  Ollama :: "py_exception + 'llm"
  llm_invoke :: "'llm \<Rightarrow> string \<Rightarrow> py_exception + string"

record ('idx, 'emb) tool =
  policy_documents_folder :: string
  regulatory_documents_folder :: string
  policy_documents :: "document list"
  regulatory_documents :: "document list"
  policy_vector_store :: "'idx option"
  regulatory_vector_store :: "'idx option"
  embeddings :: "'emb option"

section \<open>The constructor\<close>

definition init :: "('c, 'idx, 'emb, 'llm) env \<Rightarrow> string \<Rightarrow> string \<Rightarrow> ('idx, 'emb) tool" where
  "init env policy_folder regulatory_folder =
     \<lparr> policy_documents_folder = policy_folder,
       regulatory_documents_folder = regulatory_folder,
       policy_documents = [],
       regulatory_documents = [],
       policy_vector_store = None,
       regulatory_vector_store = None,
       embeddings = (case OllamaEmbeddings env of Inr e \<Rightarrow> Some e | Inl _ \<Rightarrow> None) \<rparr>"

section \<open>Strings\<close>

text \<open>
  \<open>str.lower\<close> on the ASCII letters (no other character lowers to one of \<open>.pdf\<close>),
  and \<open>str.endswith\<close>.
\<close>

definition lower_char :: "char \<Rightarrow> char" where
  "lower_char c =
     (case map_of (zip ''ABCDEFGHIJKLMNOPQRSTUVWXYZ'' ''abcdefghijklmnopqrstuvwxyz'') c of
        Some l \<Rightarrow> l
      | None \<Rightarrow> c)"

definition lower :: "string \<Rightarrow> string" where
  "lower s = map lower_char s"

definition endswith :: "string \<Rightarrow> string \<Rightarrow> bool" where
  "endswith s suffix = (length suffix \<le> length s \<and> drop (length s - length suffix) s = suffix)"

definition value_error_message :: string where
  "value_error_message = ''Document type must be 'policy' or 'regulatory'' @ [CHR 0x27]"

section \<open>load_documents\<close>

text \<open>
  \<open>document_list\<close> is an alias of the attribute chosen by \<open>document_type\<close>;
  \<open>clear\<close> and \<open>extend\<close> write through it.
\<close>

definition set_document_list :: "string \<Rightarrow> document list \<Rightarrow> ('idx, 'emb) tool \<Rightarrow> ('idx, 'emb) tool" where
  "set_document_list document_type docs t =
     (if document_type = ''policy'' then t\<lparr>policy_documents := docs\<rparr>
      else t\<lparr>regulatory_documents := docs\<rparr>)"

text \<open>
  The \<open>for\<close> loop over \<open>os.listdir\<close>: the accumulator is the document list and
  \<open>pdf_count\<close>. A file whose loading raises is skipped.
\<close>

fun load_loop ::
  "('c, 'idx, 'emb, 'llm) env \<Rightarrow> 'c filesystem \<Rightarrow> string \<Rightarrow> string list \<Rightarrow>
   document list \<times> int \<Rightarrow> document list \<times> int" where
  "load_loop env fs documents_folder [] acc = acc"
| "load_loop env fs documents_folder (filename # rest) (document_list, pdf_count) =
     (let file_path = path_join env documents_folder filename in
      case fs file_path of
        Some (File c) \<Rightarrow>
          (if endswith (lower filename) ''.pdf'' then
             (case PyPDFLoader_load env file_path c of
                Inr docs \<Rightarrow>
                  load_loop env fs documents_folder rest (document_list @ docs, pdf_count + 1)
              | Inl e \<Rightarrow> load_loop env fs documents_folder rest (document_list, pdf_count))
           else load_loop env fs documents_folder rest (document_list, pdf_count))
      | _ \<Rightarrow> load_loop env fs documents_folder rest (document_list, pdf_count))"

text \<open>
  The body of \<open>load_documents\<close> once the folder and the list are selected: the list
  is cleared; an absent folder is created, unless \<open>os.makedirs\<close> raises, and 0 is
  returned; the entries of an existing one are loaded.
\<close>

definition load_from_folder ::
  "('c, 'idx, 'emb, 'llm) env \<Rightarrow> string \<Rightarrow> string \<Rightarrow> 'c filesystem \<Rightarrow> ('idx, 'emb) tool \<Rightarrow>
   'c filesystem \<times> ('idx, 'emb) tool \<times> (py_exception + int)" where
  "load_from_folder env document_type documents_folder fs t =
     (let t1 = set_document_list document_type [] t in
      case fs documents_folder of
        None \<Rightarrow>
          (case makedirs_raises env fs documents_folder of
             Some e \<Rightarrow> (fs, t1, Inl e)
           | None \<Rightarrow> (fs(documents_folder \<mapsto> Dir []), t1, Inr 0))
      | Some (File c) \<Rightarrow> (fs, t1, Inl (NotADirectoryError documents_folder))
      | Some (Dir filenames) \<Rightarrow>
          (let (document_list, pdf_count) = load_loop env fs documents_folder filenames ([], 0)
           in (fs, set_document_list document_type document_list t1, Inr pdf_count)))"

definition load_documents ::
  "('c, 'idx, 'emb, 'llm) env \<Rightarrow> string \<Rightarrow> 'c filesystem \<Rightarrow> ('idx, 'emb) tool \<Rightarrow>
   'c filesystem \<times> ('idx, 'emb) tool \<times> (py_exception + int)" where
  "load_documents env document_type fs t =
     (if document_type = ''policy'' then
        load_from_folder env document_type (policy_documents_folder t) fs t
      else if document_type = ''regulatory'' then
        load_from_folder env document_type (regulatory_documents_folder t) fs t
      else (fs, t, Inl (ValueError value_error_message)))"

section \<open>split_documents\<close>

definition split_documents ::
  "('c, 'idx, 'emb, 'llm) env \<Rightarrow> string \<Rightarrow> int \<Rightarrow> int \<Rightarrow> ('idx, 'emb) tool \<Rightarrow>
   py_exception + document list" where
  "split_documents env document_type chunk_size chunk_overlap t =
     (if document_type = ''policy'' \<or> document_type = ''regulatory'' then
        (let documents = (if document_type = ''policy'' then policy_documents t
                          else regulatory_documents t) in
         if documents = [] then Inr []
         else Inr (text_splitter_split_documents env chunk_size chunk_overlap documents))
      else Inl (ValueError value_error_message))"

section \<open>create_vector_store\<close>

text \<open>
  \<open>Chroma.from_documents(documents=chunks, embedding=self.embeddings)\<close>: the documents
  are embedded, which can raise and then adds nothing; else they are added to the
  default collection and a store on that collection is returned.
\<close>

definition Chroma_from_documents ::
  "('c, 'idx, 'emb, 'llm) env \<Rightarrow> document list \<Rightarrow> 'emb \<Rightarrow> document list \<Rightarrow>
   document list \<times> (py_exception + 'idx)" where
  "Chroma_from_documents env documents embedding collection =
     (case Chroma_embed env documents embedding of
        Inl e \<Rightarrow> (collection, Inl e)
      | Inr vector_store \<Rightarrow> (collection @ documents, Inr vector_store))"

text \<open>\<open>setattr(self, vector_store_attr, vector_store)\<close>.\<close>

definition set_vector_store :: "string \<Rightarrow> 'idx \<Rightarrow> ('idx, 'emb) tool \<Rightarrow> ('idx, 'emb) tool" where
  "set_vector_store document_type vector_store t =
     (if document_type = ''policy'' then t\<lparr>policy_vector_store := Some vector_store\<rparr>
      else t\<lparr>regulatory_vector_store := Some vector_store\<rparr>)"

definition create_vector_store ::
  "('c, 'idx, 'emb, 'llm) env \<Rightarrow> string \<Rightarrow> document list option \<Rightarrow> document list \<Rightarrow>
   ('idx, 'emb) tool \<Rightarrow> document list \<times> ('idx, 'emb) tool \<times> (py_exception + 'idx option)" where
  "create_vector_store env document_type chunks_arg collection t =
     (case embeddings t of
        None \<Rightarrow> (collection, t, Inr None)
      | Some emb \<Rightarrow>
          if document_type = ''policy'' \<or> document_type = ''regulatory'' then
            (case (case chunks_arg of
                     None \<Rightarrow> split_documents env document_type 1000 200 t
                   | Some chunks \<Rightarrow> Inr chunks) of
               Inl e \<Rightarrow> (collection, t, Inl e)
             | Inr chunks \<Rightarrow>
                 if chunks = [] then (collection, t, Inr None)
                 else (case Chroma_from_documents env chunks emb collection of
                         (collection1, Inr vector_store) \<Rightarrow>
                           (collection1, set_vector_store document_type vector_store t,
                            Inr (Some vector_store))
                       | (collection1, Inl e) \<Rightarrow> (collection1, t, Inr None)))
          else (collection, t, Inl (ValueError value_error_message)))"

section \<open>setup_compliance_analysis_chain\<close>

text \<open>
  The template is one string literal in the source. It is written here in the order of
  the source as the text before the first slot, the first slot, the text between the
  slots, the second slot and the text after it.
\<close>

definition template_head :: string where
  "template_head =
     ''\<newline>'' @
     ''You are an expert Compliance Analyst with extensive experience in regulatory compliance'' @
     '' and policy alignment. Your role is to meticulously analyze and compare the institution's'' @
     '' internal policies against government-issued regulatory documents. These documents may'' @
     '' include formal regulations, guidelines, or informal releases such as press statements.'' @
     '' You are methodical, detail-oriented, and focused on providing actionable recommendations'' @
     '' to enhance compliance.\<newline>'' @
     ''\<newline>'' @
     ''Instructions for Analysis:\<newline>'' @
     ''\<newline>'' @
     ''1. Benchmarking Document\<newline>'' @
     ''- Treat all government regulatory documents (e.g., regulations, press releases,'' @
     '' guidelines) as potential benchmarks.\<newline>'' @
     ''- When analyzing press releases or informal documents, focus on identifying implied or'' @
     '' explicitly stated expectations relevant to institutional policies.\<newline>'' @
     ''\<newline>'' @
     ''Regulatory Context: ''"

definition template_tail :: string where
  "template_tail =
     ''\<newline>'' @
     ''\<newline>'' @
     ''Analysis Requirements:\<newline>'' @
     ''a) Benchmark each government regulatory document section against institutional policies\<newline>'' @
     ''b) Identify compliance status:\<newline>'' @
     ''   - Fully Compliant\<newline>'' @
     ''   - Partially Compliant\<newline>'' @
     ''   - Non-Compliant\<newline>'' @
     ''   - Policy Gap\<newline>'' @
     ''\<newline>'' @
     ''c) For press releases, focus on key statements implying compliance requirements\<newline>'' @
     ''\<newline>'' @
     ''Handling Ambiguity:\<newline>'' @
     ''- Clearly note the source of benchmarks\<newline>'' @
     ''- Flag ambiguous or non-standardized requirements\<newline>'' @
     ''- Provide interpretation context\<newline>'' @
     ''\<newline>'' @
     ''Output Structure:\<newline>'' @
     ''I. Document Type (Regulation/Guideline/Press Release)\<newline>'' @
     ''II.Reference: Include the title, section, or specific statement from the government'' @
     '' document.\<newline>'' @
     ''III.Reference: Include the title, section, or specific statement from the Policy'' @
     '' Sectiondocument\<newline>'' @
     ''IV. Detailed Discrepancy Analysis\<newline>'' @
     ''V. Actionable Recommendations\<newline>'' @
     ''VI. Priority Level (High/Medium/Low)\<newline>'' @
     ''\<newline>'' @
     ''Prioritization Criteria:\<newline>'' @
     ''- Relevance of policy document\<newline>'' @
     ''- Severity of non-compliance implications\<newline>'' @
     ''- Ease of remediation\<newline>'' @
     ''\<newline>'' @
     ''Ethical Considerations:\<newline>'' @
     ''- Maintain confidentiality of institutional data\<newline>'' @
     ''- Ethically handle less formal policy benchmarks\<newline>'' @
     ''- Treat press release expectations as advisory unless explicitly mandated\<newline>'' @
     ''\<newline>'' @
     ''Reporting Guidelines:\<newline>'' @
     ''1. Executive Summary\<newline>'' @
     ''   - Highlight critical compliance gaps\<newline>'' @
     ''   - Emphasize potential operational impact\<newline>'' @
     ''   - Focus on high-priority issues\<newline>'' @
     ''\<newline>'' @
     ''2. Key Findings\<newline>'' @
     ''   - Summarize discrepancies\<newline>'' @
     ''   - Include compliance area \<newline>'' @
     ''   - Note priority level with \<newline>'' @
     ''   - Provide brief recommendations\<newline>'' @
     ''\<newline>'' @
     ''3. Conclusion and Recommendations\<newline>'' @
     ''   - Summarize actionable next steps\<newline>'' @
     ''   - Emphasize urgency and feasibility\<newline>'' @
     ''   - Limit report to 500 words\<newline>'' @
     ''\<newline>'' @
     ''Key Objective: Provide precise and actionable insights to align institutional policies'' @
     '' with diverse government-issued regulatory benchmarks, enhancing compliance,'' @
     '' adaptability, and operational efficiency.\<newline>''"

definition compliance_template :: string where
  "compliance_template =
     template_head @ ''{regulatory_context}'' @
     ''\<newline>Institutional Policy Context: '' @ ''{policy_context}'' @
     template_tail"

record prompt_template =
  template :: string
  input_variables :: "string list"

definition setup_compliance_analysis_chain ::
  "('c, 'idx, 'emb, 'llm) env \<Rightarrow> (prompt_template \<times> 'llm) option" where
  "setup_compliance_analysis_chain env =
     (case Ollama env of
        Inl e \<Rightarrow> None
      | Inr llm \<Rightarrow>
          Some (\<lparr> template = compliance_template,
                   input_variables = [''regulatory_context'', ''policy_context''] \<rparr>, llm))"

section \<open>The chain \<open>prompt | llm\<close>\<close>

text \<open>
  Formatting a template as \<open>str.format\<close> does for plain field names: \<open>{name}\<close> is
  replaced by the value bound to \<open>name\<close>, \<open>{{\<close> and \<open>}}\<close> stand for one brace, a
  value is not scanned again. The second argument is the field name read so far, if the
  scan is inside a field.
\<close>

fun format_from ::
  "(string \<rightharpoonup> string) \<Rightarrow> string option \<Rightarrow> string \<Rightarrow> py_exception + string" where
  "format_from vars None [] = Inr []"
| "format_from vars (Some name) [] = Inl (ValueError ''expected '}' before end of string'')"
| "format_from vars None (c # cs) =
     (if c = CHR ''{'' then
        (case cs of
           d # ds \<Rightarrow>
             if d = CHR ''{'' then map_sum id ((#) CHR ''{'') (format_from vars None ds)
             else format_from vars (Some []) cs
         | [] \<Rightarrow> Inl (ValueError ''Single '{' encountered in format string''))
      else if c = CHR ''}'' then
        (case cs of
           d # ds \<Rightarrow>
             if d = CHR ''}'' then map_sum id ((#) CHR ''}'') (format_from vars None ds)
             else Inl (ValueError ''Single '}' encountered in format string'')
         | [] \<Rightarrow> Inl (ValueError ''Single '}' encountered in format string''))
      else map_sum id ((#) c) (format_from vars None cs))"
| "format_from vars (Some name) (c # cs) =
     (if c = CHR ''}'' then
        (case vars name of
           None \<Rightarrow> Inl (KeyError name)
         | Some v \<Rightarrow> map_sum id ((@) v) (format_from vars None cs))
      else format_from vars (Some (name @ [c])) cs)"

definition format_template :: "string \<Rightarrow> (string \<rightharpoonup> string) \<Rightarrow> py_exception + string" where
  "format_template tmpl vars = format_from vars None tmpl"

text \<open>
  \<open>analysis_chain.invoke(inputs)\<close>: the prompt checks that every input variable is
  bound, formats the template, and the model is called on the text.
\<close>

definition chain_invoke ::
  "('c, 'idx, 'emb, 'llm) env \<Rightarrow> prompt_template \<Rightarrow> 'llm \<Rightarrow> (string \<times> string) list \<Rightarrow>
   py_exception + string" where
  "chain_invoke env prompt llm inputs =
     (case filter (\<lambda>v. map_of inputs v = None) (input_variables prompt) of
        v # _ \<Rightarrow> Inl (KeyError v)
      | [] \<Rightarrow>
          (case format_template (template prompt) (map_of inputs) of
             Inl e \<Rightarrow> Inl e
           | Inr text \<Rightarrow> llm_invoke env llm text))"

section \<open>generate_compliance_report\<close>

text \<open>\<open>' '.join(texts)\<close>.\<close>

fun join_space :: "string list \<Rightarrow> string" where
  "join_space [] = []"
| "join_space [x] = x"
| "join_space (x # y # rest) = x @ '' '' @ join_space (y # rest)"

definition degraded_message :: string where
  "degraded_message =
     ''Error: Cannot generate compliance report. Please ensure both policy and regulatory'' @
     '' documents are loaded and vector stores are created.''"

definition chain_error_message :: string where
  "chain_error_message =
     ''Error: Could not initialize analysis chain. Please ensure Ollama is running.''"

text \<open>
  The body of each \<open>if not self.<category>_vector_store\<close>: reload, then re-index with
  the chunks defaulted. The results of both calls are dropped; an exception leaves.
\<close>

definition rebuild ::
  "('c, 'idx, 'emb, 'llm) env \<Rightarrow> string \<Rightarrow> 'c filesystem \<Rightarrow> document list \<Rightarrow>
   ('idx, 'emb) tool \<Rightarrow>
   'c filesystem \<times> document list \<times> ('idx, 'emb) tool \<times> (py_exception + unit)" where
  "rebuild env document_type fs collection t =
     (case load_documents env document_type fs t of
        (fs1, t1, Inl e) \<Rightarrow> (fs1, collection, t1, Inl e)
      | (fs1, t1, Inr n) \<Rightarrow>
          (case create_vector_store env document_type None collection t1 of
             (collection2, t2, Inl e) \<Rightarrow> (fs1, collection2, t2, Inl e)
           | (collection2, t2, Inr v) \<Rightarrow> (fs1, collection2, t2, Inr ())))"

text \<open>
  The part after the two rebuilds; it reads the instance and the collection and changes
  nothing. A store object is falsy only on an empty collection, and a store is set only
  when chunks were added, so \<open>not self.policy_vector_store\<close> holds exactly for
  \<open>None\<close>. The two retrievals are outside any \<open>try\<close>: an exception of theirs leaves.
\<close>

definition analyse ::
  "('c, 'idx, 'emb, 'llm) env \<Rightarrow> document list \<Rightarrow> ('idx, 'emb) tool \<Rightarrow> py_exception + string" where
  "analyse env collection t =
     (case (policy_vector_store t, regulatory_vector_store t) of
        (Some policy_store, Some regulatory_store) \<Rightarrow>
          (case get_relevant_documents env policy_store collection ''All policy documents'' of
             Inl e \<Rightarrow> Inl e
           | Inr policy_docs \<Rightarrow>
               (case get_relevant_documents env regulatory_store collection
                       ''All regulatory documents'' of
                  Inl e \<Rightarrow> Inl e
                | Inr regulatory_docs \<Rightarrow>
                    (let policy_context = join_space (map page_content policy_docs);
                         regulatory_context = join_space (map page_content regulatory_docs)
                     in case setup_compliance_analysis_chain env of
                          None \<Rightarrow> Inr chain_error_message
                        | Some (prompt, llm) \<Rightarrow>
                            (case chain_invoke env prompt llm
                                    [(''policy_context'', policy_context),
                                     (''regulatory_context'', regulatory_context)] of
                               Inr compliance_report \<Rightarrow> Inr compliance_report
                             | Inl e \<Rightarrow>
                                 Inr (''Error generating compliance report: '' @
                                      str_of_exception e)))))
      | _ \<Rightarrow> Inr degraded_message)"

definition generate_compliance_report ::
  "('c, 'idx, 'emb, 'llm) env \<Rightarrow> 'c filesystem \<Rightarrow> document list \<Rightarrow> ('idx, 'emb) tool \<Rightarrow>
   'c filesystem \<times> document list \<times> ('idx, 'emb) tool \<times> (py_exception + string)" where
  "generate_compliance_report env fs collection t =
     (case (if policy_vector_store t = None then rebuild env ''policy'' fs collection t
            else (fs, collection, t, Inr ())) of
        (fs1, collection1, t1, Inl e) \<Rightarrow> (fs1, collection1, t1, Inl e)
      | (fs1, collection1, t1, Inr u) \<Rightarrow>
          (case (if regulatory_vector_store t1 = None
                 then rebuild env ''regulatory'' fs1 collection1 t1
                 else (fs1, collection1, t1, Inr ())) of
             (fs2, collection2, t2, Inl e) \<Rightarrow> (fs2, collection2, t2, Inl e)
           | (fs2, collection2, t2, Inr u) \<Rightarrow>
               (fs2, collection2, t2, analyse env collection2 t2)))"

section \<open>Notions used in the statements\<close>

text \<open>The attributes of a category, selected as the methods select them.\<close>

definition documents_folder_of :: "string \<Rightarrow> ('idx, 'emb) tool \<Rightarrow> string" where
  "documents_folder_of document_type t =
     (if document_type = ''policy'' then policy_documents_folder t
      else regulatory_documents_folder t)"

definition document_list_of :: "string \<Rightarrow> ('idx, 'emb) tool \<Rightarrow> document list" where
  "document_list_of document_type t =
     (if document_type = ''policy'' then policy_documents t else regulatory_documents t)"

text \<open>
  What the loader makes of one directory entry: the records of a regular file with a
  PDF name that the PDF loader reads, and nothing for any other entry.
\<close>

definition processed ::
  "('c, 'idx, 'emb, 'llm) env \<Rightarrow> 'c filesystem \<Rightarrow> string \<Rightarrow> string \<Rightarrow> document list option" where
  "processed env fs documents_folder filename =
     (case fs (path_join env documents_folder filename) of
        Some (File c) \<Rightarrow>
          (if endswith (lower filename) ''.pdf'' then
             (case PyPDFLoader_load env (path_join env documents_folder filename) c of
                Inr docs \<Rightarrow> Some docs
              | Inl e \<Rightarrow> None)
           else None)
      | _ \<Rightarrow> None)"

text \<open>
  The chunk sequence \<open>create_vector_store\<close> works on: the one passed, or by default
  the split of the category's document list.
\<close>

definition chunk_sequence ::
  "('c, 'idx, 'emb, 'llm) env \<Rightarrow> string \<Rightarrow> document list option \<Rightarrow> ('idx, 'emb) tool \<Rightarrow>
   document list" where
  "chunk_sequence env document_type chunks_arg t =
     (case chunks_arg of
        Some chunks \<Rightarrow> chunks
      | None \<Rightarrow>
          (case split_documents env document_type 1000 200 t of
             Inr chunks \<Rightarrow> chunks
           | Inl e \<Rightarrow> []))"

text \<open>The template with its two slots filled.\<close>

definition filled_template :: "string \<Rightarrow> string \<Rightarrow> string" where
  "filled_template regulatory_context policy_context =
     template_head @ regulatory_context @
     ''\<newline>Institutional Policy Context: '' @ policy_context @
     template_tail"

section \<open>A small installation\<close>

text \<open>
  Concrete collaborators for the examples: a folder with the empty path cannot be
  created; a file is its list of page texts and a file without pages does not load;
  every record is one chunk; every store is the handle \<open>langchain\<close> of the default
  collection; a query returns the first four documents of the collection in an order
  that depends on the query; the model answers with a fixed text.
\<close>

definition example_env :: "(string list, string, unit, unit) env" where
  "example_env =
     \<lparr> path_join = (\<lambda>folder filename. folder @ ''/'' @ filename),
       makedirs_raises = (\<lambda>fs path.
          if path = [] then Some (FileNotFoundError ''No such file or directory'') else None),
       PyPDFLoader_load = (\<lambda>file_path pages.
          if pages = [] then Inl (LibraryError ''no pages'')
          else Inr (map (\<lambda>p. \<lparr> page_content = p, metadata = [(''source'', file_path)] \<rparr>) pages)),
       text_splitter_split_documents = (\<lambda>chunk_size chunk_overlap documents. documents),
       OllamaEmbeddings = Inr (),
       Chroma_embed = (\<lambda>chunks emb. Inr ''langchain''),
       get_relevant_documents = (\<lambda>vector_store collection query.
          Inr (take 4 (if query = ''All regulatory documents'' then rev collection
                       else collection))),
       Ollama = Inr (),
       llm_invoke = (\<lambda>llm text. Inr ''I. Regulation'') \<rparr>"

definition example_fs :: "string list filesystem" where
  "example_fs =
     [''pol'' \<mapsto> Dir [''a.PDF'', ''notes.txt'', ''bad.pdf'', ''sub.pdf''],
      ''pol/a.PDF'' \<mapsto> File [''page one'', ''page two''],
      ''pol/notes.txt'' \<mapsto> File [''text''],
      ''pol/bad.pdf'' \<mapsto> File [],
      ''pol/sub.pdf'' \<mapsto> Dir [],
      ''reg'' \<mapsto> Dir [''r.pdf''],
      ''reg/r.pdf'' \<mapsto> File [''rule'']]"

definition example_tool :: "(string, unit) tool" where
  "example_tool = init example_env ''pol'' ''reg''"

definition two_pages :: "document list" where
  "two_pages =
     [\<lparr> page_content = ''page one'', metadata = [(''source'', ''pol/a.PDF'')] \<rparr>,
      \<lparr> page_content = ''page two'', metadata = [(''source'', ''pol/a.PDF'')] \<rparr>]"

definition rule_page :: "document list" where
  "rule_page = [\<lparr> page_content = ''rule'', metadata = [(''source'', ''reg/r.pdf'')] \<rparr>]"

text \<open>The same installation without an embedding backend, and with one that fails.\<close>

definition offline_env :: "(string list, string, unit, unit) env" where
  "offline_env = example_env\<lparr> OllamaEmbeddings := Inl (LibraryError ''connection refused'') \<rparr>"

definition offline_tool :: "(string, unit) tool" where
  "offline_tool = init offline_env ''pol'' ''reg''"

definition failing_env :: "(string list, string, unit, unit) env" where
  "failing_env =
     example_env\<lparr> Chroma_embed := (\<lambda>chunks emb. Inl (LibraryError ''embedding failed'')) \<rparr>"

text \<open>
  The installation with a backend that went down after the stores were built, with a
  model that cannot be set up, with one whose call fails, and with one that echoes its
  prompt.
\<close>

definition unreachable_env :: "(string list, string, unit, unit) env" where
  "unreachable_env =
     example_env\<lparr> get_relevant_documents :=
                    (\<lambda>vector_store collection query. Inl (LibraryError ''connection refused'')),
                  Ollama := Inl (LibraryError ''connection refused'') \<rparr>"

definition no_model_env :: "(string list, string, unit, unit) env" where
  "no_model_env = example_env\<lparr> Ollama := Inl (LibraryError ''model not found'') \<rparr>"

definition silent_env :: "(string list, string, unit, unit) env" where
  "silent_env = example_env\<lparr> llm_invoke := (\<lambda>llm text. Inl (LibraryError ''model not found'')) \<rparr>"

definition echo_env :: "(string list, string, unit, unit) env" where
  "echo_env = example_env\<lparr> llm_invoke := (\<lambda>llm text. Inr text) \<rparr>"

text \<open>The instance after both categories were loaded and indexed.\<close>

definition ready_tool :: "(string, unit) tool" where
  "ready_tool =
     example_tool\<lparr> policy_documents := two_pages, regulatory_documents := rule_page,
                   policy_vector_store := Some ''langchain'',
                   regulatory_vector_store := Some ''langchain'' \<rparr>"

section \<open>The loader\<close>

lemma load_loop_processed:
  "load_loop env fs folder filenames (docs, n) =
     (docs @ concat (List.map_filter (processed env fs folder) filenames),
      n + int (length (List.map_filter (processed env fs folder) filenames)))"
  by (induction filenames arbitrary: docs n)
     (auto simp: processed_def Let_def split: option.splits node.splits sum.splits)

lemma length_map_filter:
  "length (List.map_filter f xs) = length (filter (\<lambda>x. f x \<noteq> None) xs)"
  by (induction xs) (auto split: option.splits)

lemma set_document_list_twice:
  "set_document_list dt docs (set_document_list dt docs' t) = set_document_list dt docs t"
  by (simp add: set_document_list_def)

lemma set_document_list_folders [simp]:
  "policy_documents_folder (set_document_list dt docs t) = policy_documents_folder t"
  "regulatory_documents_folder (set_document_list dt docs t) = regulatory_documents_folder t"
  by (simp_all add: set_document_list_def)

lemma load_from_folder_eq:
  "load_from_folder env dt folder fs t =
     (case fs folder of
        None \<Rightarrow>
          (case makedirs_raises env fs folder of
             Some e \<Rightarrow> (fs, set_document_list dt [] t, Inl e)
           | None \<Rightarrow> (fs(folder \<mapsto> Dir []), set_document_list dt [] t, Inr 0))
      | Some (File c) \<Rightarrow> (fs, set_document_list dt [] t, Inl (NotADirectoryError folder))
      | Some (Dir filenames) \<Rightarrow>
          (fs,
           set_document_list dt (concat (List.map_filter (processed env fs folder) filenames)) t,
           Inr (int (length (List.map_filter (processed env fs folder) filenames)))))"
  by (simp add: load_from_folder_def Let_def load_loop_processed set_document_list_twice
      split: option.splits node.splits)

lemmas example_defs = example_env_def example_fs_def example_tool_def init_def two_pages_def
  rule_page_def ready_tool_def

lemmas code_defs = load_documents_def load_from_folder_eq set_document_list_def processed_def
  endswith_def lower_def lower_char_def split_documents_def create_vector_store_def
  Chroma_from_documents_def set_vector_store_def rebuild_def generate_compliance_report_def





text \<open>
  C3. For a folder that is a directory, \<open>load_documents\<close> returns the number of
  entries it processed: the regular files with a PDF name that the PDF loader read. The
  collection is the concatenation of the records of those files, however many records
  each gave, so the count is of files and not of records. An entry whose loading raised
  adds no records, is not counted, and the entries after it are still processed.
\<close>

theorem load_counts_files:
  assumes "document_type = ''policy'' \<or> document_type = ''regulatory''"
    and "fs (documents_folder_of document_type t) = Some (Dir filenames)"
  shows "load_documents env document_type fs t =
           (fs,
            set_document_list document_type
              (concat (List.map_filter
                 (processed env fs (documents_folder_of document_type t)) filenames)) t,
            Inr (int (length (filter (\<lambda>filename.
                   processed env fs (documents_folder_of document_type t) filename \<noteq> None)
                 filenames))))"
  using assms
  by (auto simp: load_documents_def load_from_folder_eq documents_folder_of_def
      length_map_filter)

text \<open>
  In the example the policy folder holds a PDF of two pages, a text file, a PDF that
  does not load and a directory with a PDF name: the count is 1 and the collection has
  the two pages.
\<close>

theorem load_counts_files_witness:
  "load_documents example_env ''policy'' example_fs example_tool =
     (example_fs, example_tool\<lparr>policy_documents := two_pages\<rparr>, Inr 1)"
  using load_counts_files [of "''policy''" example_fs example_tool
      "[''a.PDF'', ''notes.txt'', ''bad.pdf'', ''sub.pdf'']" example_env]
  by (simp add: documents_folder_of_def set_document_list_def example_tool_def init_def
      example_fs_def example_env_def processed_def endswith_def lower_def lower_char_def
      two_pages_def)





section \<open>The indexer\<close>

lemma split_documents_valid:
  assumes "document_type = ''policy'' \<or> document_type = ''regulatory''"
  shows "split_documents env document_type chunk_size chunk_overlap t =
           Inr (if document_list_of document_type t = [] then []
                else text_splitter_split_documents env chunk_size chunk_overlap
                       (document_list_of document_type t))"
  using assms by (auto simp: split_documents_def document_list_of_def Let_def)

text \<open>
  C5. For both categories \<open>create_vector_store\<close> raises nothing. It returns none,
  leaving the instance and the collection as they were, when there is no embedding
  backend, when the chunk sequence (the one passed, or by default the split of the
  category's document list) is empty, and when the construction of the store raises. It
  returns a store only when there is a backend, the chunk sequence is not empty and the
  construction succeeded; the store is then the one constructed from that sequence, it
  is set as the category's store, and the sequence was added to the collection.
\<close>

theorem create_vector_store_outcomes:
  assumes "document_type = ''policy'' \<or> document_type = ''regulatory''"
  shows "(embeddings t = None \<longrightarrow>
            create_vector_store env document_type chunks_arg collection t =
              (collection, t, Inr None))
       \<and> (chunk_sequence env document_type chunks_arg t = [] \<longrightarrow>
            create_vector_store env document_type chunks_arg collection t =
              (collection, t, Inr None))
       \<and> (\<forall>emb e. embeddings t = Some emb
               \<and> snd (Chroma_from_documents env
                        (chunk_sequence env document_type chunks_arg t) emb collection)
                   = Inl e \<longrightarrow>
            create_vector_store env document_type chunks_arg collection t =
              (collection, t, Inr None))
       \<and> (\<forall>collection1 t1 vector_store.
            create_vector_store env document_type chunks_arg collection t =
              (collection1, t1, Inr (Some vector_store)) \<longrightarrow>
            chunk_sequence env document_type chunks_arg t \<noteq> []
            \<and> t1 = set_vector_store document_type vector_store t
            \<and> (\<exists>emb. embeddings t = Some emb
                 \<and> Chroma_from_documents env
                      (chunk_sequence env document_type chunks_arg t) emb collection
                     = (collection1, Inr vector_store)))
       \<and> (\<forall>e. snd (snd (create_vector_store env document_type chunks_arg collection t)) \<noteq>
              Inl e)"
  using assms
  by (cases chunks_arg; cases "embeddings t")
     (auto simp: create_vector_store_def chunk_sequence_def split_documents_valid
       Chroma_from_documents_def split: sum.splits)

theorem create_vector_store_outcomes_witness:
  "create_vector_store offline_env ''policy'' None rule_page
      (offline_tool\<lparr>policy_documents := two_pages\<rparr>) =
     (rule_page, offline_tool\<lparr>policy_documents := two_pages\<rparr>, Inr None)
   \<and> create_vector_store example_env ''policy'' None rule_page example_tool =
       (rule_page, example_tool, Inr None)
   \<and> create_vector_store failing_env ''policy'' None rule_page
        (example_tool\<lparr>policy_documents := two_pages\<rparr>) =
       (rule_page, example_tool\<lparr>policy_documents := two_pages\<rparr>, Inr None)
   \<and> create_vector_store example_env ''policy'' None rule_page
        (example_tool\<lparr>policy_documents := two_pages\<rparr>) =
       (rule_page @ two_pages,
        example_tool\<lparr>policy_documents := two_pages, policy_vector_store := Some ''langchain''\<rparr>,
        Inr (Some ''langchain''))"
  using create_vector_store_outcomes [of "''policy''"
      "offline_tool\<lparr>policy_documents := two_pages\<rparr>" offline_env None rule_page]
    create_vector_store_outcomes [of "''policy''" example_tool example_env None rule_page]
    create_vector_store_outcomes [of "''policy''" "example_tool\<lparr>policy_documents := two_pages\<rparr>"
      failing_env None rule_page]
    create_vector_store_outcomes [of "''policy''" "example_tool\<lparr>policy_documents := two_pages\<rparr>"
      example_env None rule_page]
  by (simp add: example_defs offline_env_def offline_tool_def failing_env_def code_defs
      chunk_sequence_def)

text \<open>
  C10, as amended. For a \<open>document_type\<close> other than \<open>policy\<close> and
  \<open>regulatory\<close>, \<open>load_documents\<close> and \<open>split_documents\<close> raise
  \<open>ValueError\<close>; \<open>create_vector_store\<close> raises \<open>ValueError\<close> when the instance has
  an embedding backend and returns none, raising nothing, when it has not, since it
  tests the backend before the type. In every case the file system, the collection of
  the vector database, both document collections and both stores are as before the call.
\<close>

theorem invalid_document_type:
  assumes "document_type \<noteq> ''policy''" and "document_type \<noteq> ''regulatory''"
  shows "load_documents env document_type fs t = (fs, t, Inl (ValueError value_error_message))
       \<and> split_documents env document_type chunk_size chunk_overlap t =
           Inl (ValueError value_error_message)
       \<and> create_vector_store env document_type chunks_arg collection t =
           (collection, t,
            if embeddings t = None then Inr None else Inl (ValueError value_error_message))"
  using assms
  by (auto simp: load_documents_def split_documents_def create_vector_store_def
      split: option.splits)

theorem invalid_document_type_witness:
  "load_documents example_env ''other'' example_fs ready_tool =
     (example_fs, ready_tool, Inl (ValueError value_error_message))
   \<and> split_documents example_env ''other'' 1000 200 ready_tool = Inl (ValueError value_error_message)
   \<and> create_vector_store example_env ''other'' None (two_pages @ rule_page) ready_tool =
       (two_pages @ rule_page, ready_tool, Inl (ValueError value_error_message))"
  using invalid_document_type [of "''other''" example_env example_fs ready_tool 1000 200 None
      "two_pages @ rule_page"]
  by (simp add: example_defs)

text \<open>
  Without an embedding backend, \<open>create_vector_store\<close> on an unknown type returns
  none and does not raise.
\<close>

theorem invalid_document_type_counterexample:
  "create_vector_store offline_env ''other'' None [] offline_tool = ([], offline_tool, Inr None)
   \<and> snd (snd (create_vector_store offline_env ''other'' None [] offline_tool)) \<noteq>
       Inl (ValueError value_error_message)"
  by (simp add: example_defs offline_env_def offline_tool_def create_vector_store_def)

section \<open>The template\<close>

lemma format_from_plain:
  assumes "CHR ''{'' \<notin> set s" and "CHR ''}'' \<notin> set s"
  shows "format_from vars None (s @ rest) = map_sum id ((@) s) (format_from vars None rest)"
  using assms
proof (induction s)
  case Nil
  show ?case by (cases "format_from vars None rest") simp_all
next
  case (Cons c s)
  then have "c \<noteq> CHR ''{''" and "c \<noteq> CHR ''}''" by auto
  with Cons show ?case by (cases "format_from vars None rest") simp_all
qed

lemma format_from_field:
  assumes "CHR ''}'' \<notin> set name"
  shows "format_from vars (Some pre) (name @ CHR ''}'' # rest) =
           (case vars (pre @ name) of
              None \<Rightarrow> Inl (KeyError (pre @ name))
            | Some v \<Rightarrow> map_sum id ((@) v) (format_from vars None rest))"
  using assms by (induction name arbitrary: pre) (auto split: option.splits)

lemma template_head_plain: "CHR ''{'' \<notin> set template_head \<and> CHR ''}'' \<notin> set template_head"
  by (simp add: template_head_def)

lemma template_tail_plain: "CHR ''{'' \<notin> set template_tail \<and> CHR ''}'' \<notin> set template_tail"
  by (simp add: template_tail_def)

lemma format_from_end:
  assumes "CHR ''{'' \<notin> set s" and "CHR ''}'' \<notin> set s"
  shows "format_from vars None s = Inr s"
  using format_from_plain [OF assms, of vars "[]"] by simp

lemma format_compliance_template:
  assumes "vars ''regulatory_context'' = Some regulatory_context"
    and "vars ''policy_context'' = Some policy_context"
  shows "format_template compliance_template vars =
           Inr (filled_template regulatory_context policy_context)"
proof -
  have tail: "format_from vars None template_tail = Inr template_tail"
    using template_tail_plain by (simp add: format_from_end)
  have policy: "format_from vars None (''{policy_context}'' @ template_tail) =
                  Inr (policy_context @ template_tail)"
    using format_from_field [of "''policy_context''" vars "[]" template_tail] assms(2) tail
    by simp
  have middle: "format_from vars None
                  (''\<newline>Institutional Policy Context: '' @ ''{policy_context}'' @ template_tail) =
                Inr (''\<newline>Institutional Policy Context: '' @ policy_context @ template_tail)"
    using format_from_plain [of "''\<newline>Institutional Policy Context: ''" vars
        "''{policy_context}'' @ template_tail"] policy
    by simp
  have regulatory: "format_from vars None
       (''{regulatory_context}'' @ ''\<newline>Institutional Policy Context: '' @
        ''{policy_context}'' @ template_tail) =
       Inr (regulatory_context @ ''\<newline>Institutional Policy Context: '' @
            policy_context @ template_tail)"
    using format_from_field [of "''regulatory_context''" vars "[]"
        "''\<newline>Institutional Policy Context: '' @ ''{policy_context}'' @ template_tail"]
      assms(1) middle
    by simp
  show ?thesis
    unfolding format_template_def compliance_template_def filled_template_def
    using format_from_plain [of template_head vars] template_head_plain regulatory
    by simp
qed

lemma format_missing:
  assumes "vars ''regulatory_context'' = None \<or> vars ''policy_context'' = None"
  shows "\<exists>name. format_template compliance_template vars = Inl (KeyError name)"
proof (cases "vars ''regulatory_context''")
  case None
  have "format_from vars None
       (''{regulatory_context}'' @ ''\<newline>Institutional Policy Context: '' @
        ''{policy_context}'' @ template_tail) = Inl (KeyError ''regulatory_context'')"
    using format_from_field [of "''regulatory_context''" vars "[]"
        "''\<newline>Institutional Policy Context: '' @ ''{policy_context}'' @ template_tail"] None
    by simp
  then show ?thesis
    unfolding format_template_def compliance_template_def
    using format_from_plain [of template_head vars] template_head_plain
    by simp
next
  case (Some regulatory_context)
  with assms have none: "vars ''policy_context'' = None" by simp
  have policy: "format_from vars None (''{policy_context}'' @ template_tail) =
                  Inl (KeyError ''policy_context'')"
    using format_from_field [of "''policy_context''" vars "[]" template_tail] none
    by simp
  have middle: "format_from vars None
                  (''\<newline>Institutional Policy Context: '' @ ''{policy_context}'' @ template_tail) =
                Inl (KeyError ''policy_context'')"
    using format_from_plain [of "''\<newline>Institutional Policy Context: ''" vars
        "''{policy_context}'' @ template_tail"] policy
    by simp
  have "format_from vars None
       (''{regulatory_context}'' @ ''\<newline>Institutional Policy Context: '' @
        ''{policy_context}'' @ template_tail) = Inl (KeyError ''policy_context'')"
    using format_from_field [of "''regulatory_context''" vars "[]"
        "''\<newline>Institutional Policy Context: '' @ ''{policy_context}'' @ template_tail"]
      Some middle
    by simp
  then show ?thesis
    unfolding format_template_def compliance_template_def
    using format_from_plain [of template_head vars] template_head_plain
    by simp
qed

section \<open>The analysis\<close>

lemma chain_invoke_eq:
  assumes "setup_compliance_analysis_chain env = Some (prompt, llm)"
  shows "chain_invoke env prompt llm
           [(''policy_context'', policy_context), (''regulatory_context'', regulatory_context)] =
         llm_invoke env llm (filled_template regulatory_context policy_context)"
proof -
  have prompt: "prompt = \<lparr> template = compliance_template,
      input_variables = [''regulatory_context'', ''policy_context''] \<rparr>"
    using assms by (auto simp: setup_compliance_analysis_chain_def split: sum.splits)
  have "format_template compliance_template
          (map_of [(''policy_context'', policy_context),
                   (''regulatory_context'', regulatory_context)]) =
        Inr (filled_template regulatory_context policy_context)"
    by (rule format_compliance_template) simp_all
  then show ?thesis by (simp add: chain_invoke_def prompt)
qed

lemma analyse_ready:
  assumes "policy_vector_store t = Some policy_store"
    and "regulatory_vector_store t = Some regulatory_store"
  shows "analyse env collection t =
     (case get_relevant_documents env policy_store collection ''All policy documents'' of
        Inl e \<Rightarrow> Inl e
      | Inr policy_docs \<Rightarrow>
          (case get_relevant_documents env regulatory_store collection
                  ''All regulatory documents'' of
             Inl e \<Rightarrow> Inl e
           | Inr regulatory_docs \<Rightarrow>
               Inr (case Ollama env of
                      Inl e \<Rightarrow> chain_error_message
                    | Inr llm \<Rightarrow>
                        (case llm_invoke env llm
                                (filled_template
                                   (join_space (map page_content regulatory_docs))
                                   (join_space (map page_content policy_docs))) of
                           Inr compliance_report \<Rightarrow> compliance_report
                         | Inl e \<Rightarrow>
                             ''Error generating compliance report: '' @ str_of_exception e))))"
proof (cases "Ollama env")
  case (Inl e)
  then show ?thesis using assms
    by (simp add: analyse_def setup_compliance_analysis_chain_def Let_def split: sum.splits)
next
  case (Inr llm)
  then have "setup_compliance_analysis_chain env =
      Some (\<lparr> template = compliance_template,
               input_variables = [''regulatory_context'', ''policy_context''] \<rparr>, llm)"
    by (simp add: setup_compliance_analysis_chain_def)
  from chain_invoke_eq [OF this] Inr this show ?thesis using assms
    by (simp add: analyse_def Let_def split: sum.splits)
qed

lemma analyse_not_ready:
  assumes "policy_vector_store t = None \<or> regulatory_vector_store t = None"
  shows "analyse env collection t = Inr degraded_message"
  using assms by (auto simp: analyse_def split: option.splits)

lemma report_ready:
  assumes "policy_vector_store t = Some policy_store"
    and "regulatory_vector_store t = Some regulatory_store"
  shows "generate_compliance_report env fs collection t =
           (fs, collection, t, analyse env collection t)"
  using assms by (simp add: generate_compliance_report_def)

text \<open>
  C9. When both stores exist and the model can be set up, the text the model is called
  on is the template with the regulatory slot filled by the chunk texts retrieved for
  the regulatory query joined by blanks and the policy slot filled by the chunk texts
  retrieved for the policy query joined by blanks; the report is the model's answer, or
  the error string when the call raises. (When a retrieval raises there is no prompt:
  the exception leaves.) Formatting the template depends on the values bound to
  \<open>regulatory_context\<close> and \<open>policy_context\<close> and on nothing else, and it fails
  when one of the two is not bound: these are the template's two slots.
\<close>

theorem prompt_synthesis:
  assumes "policy_vector_store t = Some policy_store"
    and "regulatory_vector_store t = Some regulatory_store"
    and "Ollama env = Inr llm"
  shows "generate_compliance_report env fs collection t =
           (fs, collection, t,
            case get_relevant_documents env policy_store collection ''All policy documents'' of
              Inl e \<Rightarrow> Inl e
            | Inr policy_docs \<Rightarrow>
                (case get_relevant_documents env regulatory_store collection
                        ''All regulatory documents'' of
                   Inl e \<Rightarrow> Inl e
                 | Inr regulatory_docs \<Rightarrow>
                     Inr (case llm_invoke env llm
                                 (filled_template
                                    (join_space (map page_content regulatory_docs))
                                    (join_space (map page_content policy_docs))) of
                            Inr compliance_report \<Rightarrow> compliance_report
                          | Inl e \<Rightarrow>
                              ''Error generating compliance report: '' @ str_of_exception e)))
       \<and> (\<forall>vars regulatory_context policy_context.
            vars ''regulatory_context'' = Some regulatory_context
            \<and> vars ''policy_context'' = Some policy_context \<longrightarrow>
            format_template compliance_template vars =
              Inr (filled_template regulatory_context policy_context))
       \<and> (\<forall>vars. vars ''regulatory_context'' = None \<or> vars ''policy_context'' = None \<longrightarrow>
            (\<exists>name. format_template compliance_template vars = Inl (KeyError name)))"
  using assms analyse_ready [OF assms(1,2), of env collection]
    report_ready [OF assms(1,2), of env fs collection]
  by (simp add: format_compliance_template format_missing split: sum.splits)

theorem prompt_synthesis_witness:
  "generate_compliance_report echo_env example_fs (two_pages @ rule_page) ready_tool =
     (example_fs, two_pages @ rule_page, ready_tool,
      Inr (filled_template ''rule page two page one'' ''page one page two rule''))"
  using prompt_synthesis [of ready_tool "''langchain''" "''langchain''" echo_env "()"
      example_fs "two_pages @ rule_page"]
  by (simp add: example_defs echo_env_def)

text \<open>
  C6. The claim fails on the code where the retrieval raises. Source lines 272 to 277
  are outside any \<open>try\<close>, and retrieval embeds the query through the backend: with
  both stores present and the backend unreachable, the exception of the retrieval
  leaves \<open>generate_compliance_report\<close> (first equation). The two sibling paths do what
  the claim says: a model that cannot be set up, and a model whose call raises, each
  give an error string as the report (second and third equation).
\<close>

theorem generation_failure_propagates:
  "generate_compliance_report unreachable_env example_fs (two_pages @ rule_page) ready_tool =
     (example_fs, two_pages @ rule_page, ready_tool, Inl (LibraryError ''connection refused''))
   \<and> generate_compliance_report no_model_env example_fs (two_pages @ rule_page) ready_tool =
       (example_fs, two_pages @ rule_page, ready_tool,
        Inr ''Error: Could not initialize analysis chain. Please ensure Ollama is running.'')
   \<and> generate_compliance_report silent_env example_fs (two_pages @ rule_page) ready_tool =
       (example_fs, two_pages @ rule_page, ready_tool,
        Inr ''Error generating compliance report: model not found'')"
  by (simp add: example_defs unreachable_env_def no_model_env_def silent_env_def report_ready
      analyse_ready chain_error_message_def)

lemma rebuild_regulatory_empty:
  assumes "load_documents env ''regulatory'' fs t = (fs1, t1, Inr n)"
    and "regulatory_documents t1 = []"
  shows "rebuild env ''regulatory'' fs collection t = (fs1, collection, t1, Inr ())"
    and "create_vector_store env ''regulatory'' None collection t1 = (collection, t1, Inr None)"
  using assms
  by (auto simp: rebuild_def create_vector_store_def split_documents_def split: option.splits)

lemma rebuild_load_raises:
  assumes "load_documents env document_type fs t = (fs1, t1, Inl e)"
  shows "rebuild env document_type fs collection t = (fs1, collection, t1, Inl e)"
  using assms by (simp add: rebuild_def)

lemma load_documents_stores:
  assumes "load_documents env document_type fs t = (fs1, t1, r)"
  shows "policy_vector_store t1 = policy_vector_store t"
    and "regulatory_vector_store t1 = regulatory_vector_store t"
  using assms
  by (auto simp: load_documents_def load_from_folder_eq set_document_list_def
      split: if_splits option.splits node.splits)

text \<open>
  C2, as amended. The policy store exists and the regulatory store is missing, so
  \<open>generate_compliance_report\<close> reloads the regulatory category. When the reload
  returns and leaves the regulatory collection empty, the re-indexing gives none and the
  report is the fixed error string of the degraded state: nothing is raised, no model is
  called and the policy store is kept. The string asks for both categories to be loaded
  and indexed; it is the same string whichever side is missing. When the reload raises
  (the folder path is a regular file, or the folder is absent and cannot be created),
  that exception leaves \<open>generate_compliance_report\<close>.
\<close>

theorem report_degraded:
  assumes "policy_vector_store t = Some policy_store"
    and "regulatory_vector_store t = None"
    and "load_documents env ''regulatory'' fs t = (fs1, t1, r)"
  shows "(\<forall>n. r = Inr n \<and> regulatory_documents t1 = [] \<longrightarrow>
            generate_compliance_report env fs collection t =
              (fs1, collection, t1,
               Inr (''Error: Cannot generate compliance report. Please ensure both policy'' @
                    '' and regulatory documents are loaded and vector stores are created.''))
            \<and> create_vector_store env ''regulatory'' None collection t1 =
                (collection, t1, Inr None))
       \<and> (\<forall>e. r = Inl e \<longrightarrow>
            generate_compliance_report env fs collection t = (fs1, collection, t1, Inl e))
       \<and> regulatory_vector_store t1 = None
       \<and> policy_vector_store t1 = Some policy_store"
proof -
  have stores: "regulatory_vector_store t1 = None" "policy_vector_store t1 = Some policy_store"
    using assms load_documents_stores [OF assms(3)] by simp_all
  then have degraded: "analyse env collection t1 = Inr degraded_message"
    by (simp add: analyse_not_ready)
  have returns: "generate_compliance_report env fs collection t =
      (fs1, collection, t1, Inr degraded_message)
      \<and> create_vector_store env ''regulatory'' None collection t1 = (collection, t1, Inr None)"
    if "r = Inr n" and "regulatory_documents t1 = []" for n
    using that assms stores degraded rebuild_regulatory_empty [of env fs t fs1 t1 n collection]
    by (simp add: generate_compliance_report_def)
  have raises: "generate_compliance_report env fs collection t = (fs1, collection, t1, Inl e)"
    if "r = Inl e" for e
    using that assms rebuild_load_raises [of env "''regulatory''" fs t fs1 t1 e collection]
    by (simp add: generate_compliance_report_def)
  show ?thesis
    using returns raises stores by (simp add: degraded_message_def)
qed

theorem report_degraded_witness:
  "generate_compliance_report example_env (example_fs(''reg'' \<mapsto> Dir [''readme.txt'']))
      two_pages
      (example_tool\<lparr>policy_documents := two_pages, regulatory_documents := rule_page,
                    policy_vector_store := Some ''langchain''\<rparr>) =
     (example_fs(''reg'' \<mapsto> Dir [''readme.txt'']), two_pages,
      example_tool\<lparr>policy_documents := two_pages, policy_vector_store := Some ''langchain''\<rparr>,
      Inr (''Error: Cannot generate compliance report. Please ensure both policy'' @
           '' and regulatory documents are loaded and vector stores are created.''))
   \<and> generate_compliance_report example_env (example_fs(''reg'' \<mapsto> File [''rule''])) two_pages
      (example_tool\<lparr>policy_documents := two_pages, regulatory_documents := rule_page,
                    policy_vector_store := Some ''langchain''\<rparr>) =
     (example_fs(''reg'' \<mapsto> File [''rule'']), two_pages,
      example_tool\<lparr>policy_documents := two_pages, policy_vector_store := Some ''langchain''\<rparr>,
      Inl (NotADirectoryError ''reg''))"
  using report_degraded [of
      "example_tool\<lparr>policy_documents := two_pages, regulatory_documents := rule_page,
                    policy_vector_store := Some ''langchain''\<rparr>"
      "''langchain''" example_env "example_fs(''reg'' \<mapsto> Dir [''readme.txt''])"
      "example_fs(''reg'' \<mapsto> Dir [''readme.txt''])"
      "example_tool\<lparr>policy_documents := two_pages, policy_vector_store := Some ''langchain''\<rparr>"
      "Inr 0" two_pages]
    report_degraded [of
      "example_tool\<lparr>policy_documents := two_pages, regulatory_documents := rule_page,
                    policy_vector_store := Some ''langchain''\<rparr>"
      "''langchain''" example_env "example_fs(''reg'' \<mapsto> File [''rule''])"
      "example_fs(''reg'' \<mapsto> File [''rule''])"
      "example_tool\<lparr>policy_documents := two_pages, policy_vector_store := Some ''langchain''\<rparr>"
      "Inl (NotADirectoryError ''reg'')" two_pages]
  by (simp add: example_defs code_defs)

text \<open>
  The report is the same string when the regulatory side is the missing one and when
  the policy side is: the string does not tell which side is deficient. And with the
  regulatory folder path a regular file, an exception leaves.
\<close>

theorem report_degraded_counterexample:
  "snd (snd (snd (generate_compliance_report example_env (example_fs(''reg'' \<mapsto> Dir []))
      two_pages
      (example_tool\<lparr>policy_documents := two_pages,
                    policy_vector_store := Some ''langchain''\<rparr>)))) =
     Inr (''Error: Cannot generate compliance report. Please ensure both policy'' @
          '' and regulatory documents are loaded and vector stores are created.'')
   \<and> snd (snd (snd (generate_compliance_report example_env (example_fs(''pol'' \<mapsto> Dir []))
      rule_page
      (example_tool\<lparr>regulatory_documents := rule_page,
                    regulatory_vector_store := Some ''langchain''\<rparr>)))) =
     Inr (''Error: Cannot generate compliance report. Please ensure both policy'' @
          '' and regulatory documents are loaded and vector stores are created.'')
   \<and> snd (snd (snd (generate_compliance_report example_env
      (example_fs(''reg'' \<mapsto> File [''rule''])) two_pages
      (example_tool\<lparr>policy_documents := two_pages,
                    policy_vector_store := Some ''langchain''\<rparr>)))) =
     Inl (NotADirectoryError ''reg'')"
  by (simp add: example_defs code_defs analyse_not_ready degraded_message_def)

text \<open>
  C1. The claim fails on the code. Both calls of \<open>Chroma.from_documents\<close> (source
  lines 147 to 150) name no collection and no directory, so the policy store and the
  regulatory store are on the one default collection. On a new instance in a new
  process, with chunks never passed, \<open>generate_compliance_report\<close> loads and indexes
  the policy folder, then the regulatory folder: the collection then holds the two
  policy chunks and the regulatory chunk, and the context retrieved through the policy
  store contains the regulatory text as the context retrieved through the regulatory
  store contains the policy texts.
\<close>

theorem category_separation_violated:
  "generate_compliance_report echo_env example_fs [] (init echo_env ''pol'' ''reg'') =
     (example_fs, two_pages @ rule_page, ready_tool,
      Inr (filled_template ''rule page two page one'' ''page one page two rule''))
   \<and> get_relevant_documents echo_env ''langchain'' (two_pages @ rule_page)
        ''All policy documents'' = Inr (two_pages @ rule_page)"
  by (simp add: example_defs echo_env_def code_defs analyse_ready)

end
